theory Spec2Isabelle
  imports Complex_Main "HOL-Library.Sublist"
begin

section \<open>Common vocabulary\<close>

text \<open>
  JavaScript values that the program passes around are modelled as follows.
  A string is a \<^typ>\<open>string\<close>; an optional argument whose absence is \<open>null\<close> or
  \<open>undefined\<close> is an \<^typ>\<open>'a option\<close> with \<open>None\<close> for both.  The test \<open>if (s)\<close> on such a
  value is JavaScript truthiness: \<open>null\<close>, \<open>undefined\<close> and the empty string are falsy, every
  other string is truthy.
\<close>

type_synonym path = string

definition truthy :: "string option \<Rightarrow> bool" where
  "truthy s = (case s of None \<Rightarrow> False | Some t \<Rightarrow> t \<noteq> [])"

definition the_string :: "string option \<Rightarrow> string" where
  "the_string s = (case s of None \<Rightarrow> [] | Some t \<Rightarrow> t)"

abbreviation dquote :: char where "dquote \<equiv> CHR 0x22"
abbreviation squote :: char where "squote \<equiv> CHR 0x27"
abbreviation backslash :: char where "backslash \<equiv> CHR 0x5C"
abbreviation newline :: char where "newline \<equiv> CHR 0x0A"

text \<open>
  Thrown values.  \<open>Error m\<close> is \<open>new Error(m)\<close>; \<open>SyntaxError m\<close> is what \<open>JSON.parse\<close>
  throws; \<open>SystemError code m\<close> is an error of the \<open>fs\<close> module, whose \<open>code\<close> member is
  the string that the program compares with \<open>'ENOENT'\<close>.  The other two kinds have no
  \<open>code\<close> member.
\<close>

datatype js_error = Error string | SyntaxError string | SystemError string string

definition message :: "js_error \<Rightarrow> string" where
  "message e = (case e of Error m \<Rightarrow> m | SyntaxError m \<Rightarrow> m | SystemError c m \<Rightarrow> m)"

definition error_code :: "js_error \<Rightarrow> string option" where
  "error_code e = (case e of SystemError c m \<Rightarrow> Some c | _ \<Rightarrow> None)"

definition enoent :: "path \<Rightarrow> js_error" where
  "enoent p = SystemError ''ENOENT''
                (''ENOENT: no such file or directory, open '' @ [squote] @ p @ [squote])"



text \<open>
  Template literals print an integer in decimal, with a minus sign when negative.
\<close>

definition digit_char :: "nat \<Rightarrow> char" where
  "digit_char d = char_of (48 + d)"

fun string_of_nat :: "nat \<Rightarrow> string" where
  "string_of_nat n =
     (if n < 10 then [digit_char n] else string_of_nat (n div 10) @ [digit_char (n mod 10)])"

declare string_of_nat.simps [simp del]

definition string_of_int :: "int \<Rightarrow> string" where
  "string_of_int i = (if i < 0 then CHR ''-'' # string_of_nat (nat (- i)) else string_of_nat (nat i))"

text \<open>
  The symbols of the console messages and of the direction labels, as their UTF-8 bytes:
  the arrow U+2192, the check mark U+2713 and the cross U+2717.
\<close>

definition arrow :: string where
  "arrow = [CHR 0xE2, CHR 0x86, CHR 0x92]"

definition check_mark :: string where
  "check_mark = [CHR 0xE2, CHR 0x9C, CHR 0x93]"

definition cross_mark :: string where
  "cross_mark = [CHR 0xE2, CHR 0x9C, CHR 0x97]"

section \<open>Pandoc integration (\<open>pandoc.js\<close>, the file \<open>src/unnamed/part_002\<close>)\<close>

subsection \<open>Argument builders\<close>

definition buildMdToDocxArgs :: "path \<Rightarrow> path \<Rightarrow> string option \<Rightarrow> string list" where
  "buildMdToDocxArgs mdPath outDocx refdoc =
     (let args = [mdPath, ''-o'', outDocx] in
      if truthy refdoc then args @ [''--reference-doc'', the_string refdoc] else args)"

definition buildDocxToMdArgs :: "path \<Rightarrow> path \<Rightarrow> string list" where
  "buildDocxToMdArgs docxPath outMd = [docxPath, ''-o'', outMd]"

subsection \<open>Running the converter\<close>

text \<open>
  \<open>spawnSync\<close> returns an object whose \<open>status\<close> is the exit code, or \<open>null\<close> when the
  process did not exit by itself (it could not be started, or a signal ended it), and whose
  output streams may be \<open>null\<close>.  The child process is the environment of the program: the
  model takes it as a function from the command and its arguments to that object.
\<close>

record 'a proc_result =
  status :: 'a
  stdout :: "string option"
  stderr :: "string option"

type_synonym spawn = "string \<Rightarrow> string list \<Rightarrow> int option proc_result"

definition runPandoc :: "spawn \<Rightarrow> string list \<Rightarrow> int proc_result" where
  "runPandoc spawnSync args =
     (let result = spawnSync ''pandoc'' args in
      \<lparr> status = (case status result of None \<Rightarrow> 1 | Some s \<Rightarrow> s),
        stdout = stdout result,
        stderr = stderr result \<rparr>)"

definition mdToDocx :: "spawn \<Rightarrow> path \<Rightarrow> path \<Rightarrow> string option \<Rightarrow> js_error + unit" where
  "mdToDocx spawnSync mdPath outDocx refdoc =
     (let args = buildMdToDocxArgs mdPath outDocx refdoc;
          result = runPandoc spawnSync args in
      if status result \<noteq> 0
      then Inl (Error (''pandoc failed (md '' @ arrow @ '' docx) with status ''
                        @ string_of_int (status result)))
      else Inr ())"

definition docxToMd :: "spawn \<Rightarrow> path \<Rightarrow> path \<Rightarrow> js_error + unit" where
  "docxToMd spawnSync docxPath outMd =
     (let args = buildDocxToMdArgs docxPath outMd;
          result = runPandoc spawnSync args in
      if status result \<noteq> 0
      then Inl (Error (''pandoc failed (docx '' @ arrow @ '' md) with status ''
                        @ string_of_int (status result)))
      else Inr ())"


section \<open>Google Docs payloads (\<open>docs.js\<close>, the file \<open>src/unnamed/part_005\<close>)\<close>

text \<open>
  The batchUpdate requests are object literals of three fixed shapes; each shape is a
  constructor carrying the members that the literal has.  Numbers are modelled as reals and
  \<open>*\<close> as exact multiplication.  A member of \<open>options\<close> that is \<open>undefined\<close> takes the
  default of the destructuring pattern.
\<close>

record dimension =
  magnitude :: real
  unit :: string










section \<open>\<open>JSON.stringify\<close> and \<open>JSON.parse\<close>\<close>

text \<open>
  The manifest is written with \<open>JSON.stringify(obj, null, 2)\<close> and read with \<open>JSON.parse\<close>.
  Both are built-ins of the language; this section models them after ECMA-262 on the values
  below.  A number is an integer (a manifest holds none at all; fractions and exponents are
  floating point and are left out), a string is a \<^typ>\<open>string\<close> whose characters have codes
  below 256, and an object is the list of its members in the order in which they are
  enumerated.  \<open>undefined\<close>, functions and cyclic structures, which \<open>JSON.stringify\<close> drops
  or rejects, are not values of this type.
\<close>

datatype json =
    JNull
  | JBool bool
  | JNum int
  | JStr string
  | JArr "json list"
  | JObj "(string \<times> json) list"

subsection \<open>Serialisation with an indentation of two spaces\<close>

text \<open>
  \<open>QuoteJSONString\<close>: the quotation mark, the backslash and the control characters below
  U+0020 are escaped (the five that have a short escape with it, the others as
  a backslash, the letter u and four lower-case hexadecimal digits); every other character
  stands for itself.
\<close>

definition hex_digit :: "nat \<Rightarrow> char" where
  "hex_digit d = (if d < 10 then char_of (48 + d) else char_of (87 + d))"

definition unicode_escape :: "nat \<Rightarrow> string" where
  "unicode_escape n =
     [backslash, CHR ''u'', hex_digit (n div 4096 mod 16), hex_digit (n div 256 mod 16),
      hex_digit (n div 16 mod 16), hex_digit (n mod 16)]"

definition quote_char :: "char \<Rightarrow> string" where
  "quote_char c =
     (if c = CHR 0x08 then [backslash, CHR ''b'']
      else if c = CHR 0x09 then [backslash, CHR ''t'']
      else if c = CHR 0x0A then [backslash, CHR ''n'']
      else if c = CHR 0x0C then [backslash, CHR ''f'']
      else if c = CHR 0x0D then [backslash, CHR ''r'']
      else if c = dquote then [backslash, dquote]
      else if c = backslash then [backslash, backslash]
      else if of_char c < (32 :: nat) then unicode_escape (of_char c)
      else [c])"

definition quote :: "string \<Rightarrow> string" where
  "quote s = dquote # concat (map quote_char s) @ [dquote]"

text \<open>
  \<open>SerializeJSONObject\<close> and \<open>SerializeJSONArray\<close> with the gap of two spaces: an empty
  object is \<open>{}\<close> and an empty array \<open>[]\<close>; otherwise every member stands on a line of its
  own, indented two spaces deeper than the enclosing value, members are separated by a comma
  at the end of the line, a key is followed by a colon and one space, and the closing bracket
  stands on a line of its own at the indentation of the enclosing value.  The first argument
  of \<open>stringify\<close> is the current indentation.
\<close>

definition nl_indent :: "nat \<Rightarrow> string" where
  "nl_indent n = newline # replicate n (CHR '' '')"

fun stringify :: "nat \<Rightarrow> json \<Rightarrow> string"
and stringify_elems :: "nat \<Rightarrow> json list \<Rightarrow> string"
and stringify_members :: "nat \<Rightarrow> (string \<times> json) list \<Rightarrow> string"
where
  "stringify ind JNull = ''null''"
| "stringify ind (JBool b) = (if b then ''true'' else ''false'')"
| "stringify ind (JNum i) = string_of_int i"
| "stringify ind (JStr s) = quote s"
| "stringify ind (JArr []) = ''[]''"
| "stringify ind (JArr (x # xs)) =
     ''['' @ nl_indent (ind + 2) @ stringify (ind + 2) x @ stringify_elems (ind + 2) xs
       @ nl_indent ind @ '']''"
| "stringify ind (JObj []) = ''{}''"
| "stringify ind (JObj ((k, v) # kvs)) =
     ''{'' @ nl_indent (ind + 2) @ quote k @ '': '' @ stringify (ind + 2) v
       @ stringify_members (ind + 2) kvs @ nl_indent ind @ ''}''"
| "stringify_elems ind [] = []"
| "stringify_elems ind (x # xs) =
     '','' @ nl_indent ind @ stringify ind x @ stringify_elems ind xs"
| "stringify_members ind [] = []"
| "stringify_members ind ((k, v) # kvs) =
     '','' @ nl_indent ind @ quote k @ '': '' @ stringify ind v @ stringify_members ind kvs"


subsection \<open>Parsing\<close>

text \<open>
  A recursive-descent parser for the JSON grammar.  White space is the space, the tab, the
  line feed and the carriage return.
\<close>

definition is_ws :: "char \<Rightarrow> bool" where
  "is_ws c = (c = CHR '' '' \<or> c = CHR 0x09 \<or> c = CHR 0x0A \<or> c = CHR 0x0D)"

definition skip_ws :: "string \<Rightarrow> string" where
  "skip_ws = dropWhile is_ws"

definition is_digit :: "char \<Rightarrow> bool" where
  "is_digit c = (48 \<le> (of_char c :: nat) \<and> (of_char c :: nat) \<le> 57)"

definition digit_value :: "char \<Rightarrow> nat" where
  "digit_value c = of_char c - 48"

definition nat_of_digits :: "string \<Rightarrow> nat" where
  "nat_of_digits ds = foldl (\<lambda>a d. 10 * a + digit_value d) 0 ds"

text \<open>
  The characters of a string up to the closing quotation mark.  A raw control character is
  a syntax error; a backslash starts one of the escapes of the grammar.  A \<open>u\<close> escape
  above U+00FF denotes a character outside the strings of this model and gets no
  result.
\<close>

definition hex_value :: "char \<Rightarrow> nat option" where
  "hex_value c =
     (let n = (of_char c :: nat) in
      if 48 \<le> n \<and> n \<le> 57 then Some (n - 48)
      else if 97 \<le> n \<and> n \<le> 102 then Some (n - 87)
      else if 65 \<le> n \<and> n \<le> 70 then Some (n - 55)
      else None)"

definition unescape :: "char \<Rightarrow> char option" where
  "unescape e =
     (if e = dquote then Some dquote
      else if e = backslash then Some backslash
      else if e = CHR ''/'' then Some (CHR ''/'')
      else if e = CHR ''b'' then Some (CHR 0x08)
      else if e = CHR ''f'' then Some (CHR 0x0C)
      else if e = CHR ''n'' then Some (CHR 0x0A)
      else if e = CHR ''r'' then Some (CHR 0x0D)
      else if e = CHR ''t'' then Some (CHR 0x09)
      else None)"

definition hex4 :: "char \<Rightarrow> char \<Rightarrow> char \<Rightarrow> char \<Rightarrow> nat option" where
  "hex4 a b c d =
     (case (hex_value a, hex_value b, hex_value c, hex_value d) of
        (Some w, Some x, Some y, Some z) \<Rightarrow> Some (((w * 16 + x) * 16 + y) * 16 + z)
      | _ \<Rightarrow> None)"

fun parse_chars :: "string \<Rightarrow> (string \<times> string) option" where
  "parse_chars [] = None"
| "parse_chars (c # cs) =
     (if c = dquote then Some ([], cs)
      else if c = backslash then
        (case cs of
           [] \<Rightarrow> None
         | e # r \<Rightarrow>
             if e = CHR ''u'' then
               (case r of
                  h1 # h2 # h3 # h4 # r' \<Rightarrow>
                    (case hex4 h1 h2 h3 h4 of
                       None \<Rightarrow> None
                     | Some n \<Rightarrow>
                         if n < 256
                         then map_option (\<lambda>(s, t). (char_of n # s, t)) (parse_chars r')
                         else None)
                | _ \<Rightarrow> None)
             else
               (case unescape e of
                  None \<Rightarrow> None
                | Some d \<Rightarrow> map_option (\<lambda>(s, t). (d # s, t)) (parse_chars r)))
      else if of_char c < (32 :: nat) then None
      else map_option (\<lambda>(s, t). (c # s, t)) (parse_chars cs))"

text \<open>
  A number: an optional minus sign and the digits of an integer without a leading zero.  A
  fraction or an exponent that follows is left in the input, where nothing accepts it: such a
  text gets no result here.
\<close>

definition parse_number :: "string \<Rightarrow> (json \<times> string) option" where
  "parse_number cs =
     (let neg = (case cs of [] \<Rightarrow> False | c # r \<Rightarrow> c = CHR ''-'');
          cs1 = (if neg then tl cs else cs);
          ds = takeWhile is_digit cs1;
          rest = dropWhile is_digit cs1 in
      if ds = [] then None
      else if hd ds = CHR ''0'' \<and> 1 < length ds then None
      else Some (JNum (if neg then - int (nat_of_digits ds) else int (nat_of_digits ds)), rest))"

definition parse_key :: "string \<Rightarrow> (string \<times> string) option" where
  "parse_key cs =
     (case skip_ws cs of
        [] \<Rightarrow> None
      | c # r \<Rightarrow>
          if c = dquote then
            (case parse_chars r of
               None \<Rightarrow> None
             | Some (k, r1) \<Rightarrow>
                 (case skip_ws r1 of
                    [] \<Rightarrow> None
                  | c2 # r2 \<Rightarrow> if c2 = CHR '':'' then Some (k, r2) else None))
          else None)"

text \<open>
  An object literal with a repeated key keeps the position of the first occurrence and the
  value of the last one.  (An engine enumerates the keys that are array indices before the
  others; a list of members stands for the object in its order of enumeration, and this
  reordering is not modelled.)
\<close>

fun set_property :: "string \<Rightarrow> json \<Rightarrow> (string \<times> json) list \<Rightarrow> (string \<times> json) list" where
  "set_property k v [] = [(k, v)]"
| "set_property k v ((k', v') # kvs) =
     (if k' = k then (k, v) # kvs else (k', v') # set_property k v kvs)"

definition object_of_members :: "(string \<times> json) list \<Rightarrow> json" where
  "object_of_members kvs = JObj (foldl (\<lambda>acc (k, v). set_property k v acc) [] kvs)"

text \<open>
  Values, the elements of an array after the first one, and the members of an object after
  the first one.  The first argument bounds the depth of the recursion; every recursive call
  stands behind at least one consumed character, so a bound above the length of the text is
  never exhausted, and \<open>JSON_parse\<close> starts with such a bound.
\<close>

fun parse_value :: "nat \<Rightarrow> string \<Rightarrow> (json \<times> string) option"
and parse_elems :: "nat \<Rightarrow> string \<Rightarrow> (json list \<times> string) option"
and parse_members :: "nat \<Rightarrow> string \<Rightarrow> ((string \<times> json) list \<times> string) option"
where
  "parse_value 0 cs = None"
| "parse_value (Suc n) cs =
     (case skip_ws cs of
        [] \<Rightarrow> None
      | c # r \<Rightarrow>
          if c = CHR ''['' then
            (case skip_ws r of
               [] \<Rightarrow> None
             | d # r' \<Rightarrow>
                 if d = CHR '']'' then Some (JArr [], r')
                 else
                   (case parse_value n (d # r') of
                      None \<Rightarrow> None
                    | Some (x, r1) \<Rightarrow>
                        (case parse_elems n r1 of
                           None \<Rightarrow> None
                         | Some (xs, r2) \<Rightarrow> Some (JArr (x # xs), r2))))
          else if c = CHR ''{'' then
            (case skip_ws r of
               [] \<Rightarrow> None
             | d # r' \<Rightarrow>
                 if d = CHR ''}'' then Some (JObj [], r')
                 else
                   (case parse_key (d # r') of
                      None \<Rightarrow> None
                    | Some (k, r1) \<Rightarrow>
                        (case parse_value n r1 of
                           None \<Rightarrow> None
                         | Some (v, r2) \<Rightarrow>
                             (case parse_members n r2 of
                                None \<Rightarrow> None
                              | Some (kvs, r3) \<Rightarrow> Some (object_of_members ((k, v) # kvs), r3)))))
          else if c = dquote then
            (case parse_chars r of
               None \<Rightarrow> None
             | Some (s, r') \<Rightarrow> Some (JStr s, r'))
          else if take 4 (c # r) = ''true'' then Some (JBool True, drop 4 (c # r))
          else if take 5 (c # r) = ''false'' then Some (JBool False, drop 5 (c # r))
          else if take 4 (c # r) = ''null'' then Some (JNull, drop 4 (c # r))
          else parse_number (c # r))"
| "parse_elems 0 cs = None"
| "parse_elems (Suc n) cs =
     (case skip_ws cs of
        [] \<Rightarrow> None
      | c # r \<Rightarrow>
          if c = CHR '']'' then Some ([], r)
          else if c = CHR '','' then
            (case parse_value n r of
               None \<Rightarrow> None
             | Some (x, r1) \<Rightarrow>
                 (case parse_elems n r1 of
                    None \<Rightarrow> None
                  | Some (xs, r2) \<Rightarrow> Some (x # xs, r2)))
          else None)"
| "parse_members 0 cs = None"
| "parse_members (Suc n) cs =
     (case skip_ws cs of
        [] \<Rightarrow> None
      | c # r \<Rightarrow>
          if c = CHR ''}'' then Some ([], r)
          else if c = CHR '','' then
            (case parse_key r of
               None \<Rightarrow> None
             | Some (k, r1) \<Rightarrow>
                 (case parse_value n r1 of
                    None \<Rightarrow> None
                  | Some (v, r2) \<Rightarrow>
                      (case parse_members n r2 of
                         None \<Rightarrow> None
                       | Some (kvs, r3) \<Rightarrow> Some ((k, v) # kvs, r3))))
          else None)"

text \<open>
  \<open>JSON.parse\<close> accepts a text that is one value between optional white space, and throws
  a \<open>SyntaxError\<close> on every other text.  The wording of its message is left to the engine.
\<close>

definition json_syntax_message :: string where
  "json_syntax_message = ''Unexpected token or end of JSON input''"

definition JSON_parse :: "string \<Rightarrow> js_error + json" where
  "JSON_parse text =
     (case parse_value (Suc (length text)) text of
        None \<Rightarrow> Inl (SyntaxError json_syntax_message)
      | Some (v, rest) \<Rightarrow> if skip_ws rest = [] then Inr v else Inl (SyntaxError json_syntax_message))"



section \<open>The manifest store (\<open>drive.js\<close>, in the file \<open>src/src/auth.js\<close>)\<close>




text \<open>
  \<open>fs.writeFile\<close> opens the path with the flag \<open>w\<close>, which creates the file or truncates
  it to length zero, and then writes the data.  The write may fail on the way (a full or
  failing device): \<open>WriteFails n code m\<close> is the run in which \<open>n\<close> characters reach the
  file before the error \<open>code\<close> is raised.
\<close>

datatype write_fault = NoFault | WriteFails nat string string






section \<open>The commands (\<open>src/src/cli.js\<close>) and their collaborators\<close>

subsection \<open>The manifest and the world of a command\<close>

text \<open>
  The manifest is the object of the documented shape: \<open>files\<close> maps a local path to an
  entry with the members \<open>gdocId\<close> and \<open>lastSync\<close>; \<open>version\<close> and \<open>config\<close> are carried
  along.  A member that an object lacks is \<open>None\<close>.
\<close>

record file_info =
  gdocId :: "string option"
  lastSync :: "string option"

record manifest =
  version :: "string option"
  files :: "path \<rightharpoonup> file_info"
  config :: "(string \<times> string) list option"

text \<open>
  What \<open>loadManifest\<close> can observe of the file \<open>.draftsync.json\<close>: it is absent, reading
  it fails with another error, its text is not JSON, or its text is the JSON of a manifest.
  Serialising and parsing are inverse to each other on such a text (section on the manifest
  store), so a manifest that was saved is the manifest that is loaded next.
\<close>

datatype manifest_file = Absent | Unreadable js_error | Malformed | Holds manifest

text \<open>
  The effects of a command, in the order in which they happen.  Console output is recorded
  without its colours.  The stubs of the Google API (\<open>authenticate\<close>, \<open>createDoc\<close>,
  \<open>formatDocument\<close>) never throw; each is recorded as one event, and their own console
  output is not.
\<close>

datatype event =
    ConsoleLog string
  | ConsoleError string
  | ReadFile path
  | WriteFile path manifest
  | Authenticate
  | CheckPandocInstalled
  | Mkdir path
  | Exec string
  | CreateDoc string path "string option"
  | FormatDocument string

text \<open>The result of \<open>exec\<close>: the two output streams of a command that exited with 0, or
  the message of the error with which the promise is rejected.\<close>

datatype exec_result = Exits string string | Fails string

text \<open>
  The world in which a command runs: the manifest file, the answers of the environment
  (whether writing the manifest fails, the clock, whether \<open>pandoc --version\<close> succeeds, what
  \<open>mkdir\<close> and a shell command do, the random suffix of \<open>createDoc\<close>, the functions of the
  platform's \<open>path\<close> module) and the trace of the effects so far.
\<close>

record world =
  manifest_file :: manifest_file
  write_fault :: "js_error option"
  clock :: string
  pandoc_installed :: bool
  mkdir_fault :: "path \<Rightarrow> js_error option"
  exec :: "string \<Rightarrow> exec_result"
  random_suffix :: string
  path_basename :: "path \<Rightarrow> string \<Rightarrow> string"
  path_dirname :: "path \<Rightarrow> path"
  path_join :: "path \<Rightarrow> path \<Rightarrow> path"
  trace :: "event list"

definition emit :: "event \<Rightarrow> world \<Rightarrow> world" where
  "emit e w = w\<lparr> trace := trace w @ [e] \<rparr>"

definition MANIFEST_FILE :: path where
  "MANIFEST_FILE = ''.draftsync.json''"

definition loadManifest :: "world \<Rightarrow> (js_error + manifest) \<times> world" where
  "loadManifest w =
     (let w1 = emit (ReadFile MANIFEST_FILE) w in
      case (case manifest_file w1 of
              Absent \<Rightarrow> Inl (enoent MANIFEST_FILE)
            | Unreadable error \<Rightarrow> Inl error
            | Malformed \<Rightarrow> Inl (SyntaxError json_syntax_message)
            | Holds m \<Rightarrow> Inr m) of
        Inr m \<Rightarrow> (Inr m, w1)
      | Inl error \<Rightarrow>
          if error_code error = Some ''ENOENT''
          then (Inr \<lparr> version = None, files = Map.empty, config = None \<rparr>, w1)
          else (Inl error, w1))"

text \<open>
  A write of the manifest that fails is taken to fail when the file is opened, which leaves
  the file as it was.
\<close>

definition saveManifest :: "manifest \<Rightarrow> world \<Rightarrow> (js_error + unit) \<times> world" where
  "saveManifest m w =
     (let w1 = emit (WriteFile MANIFEST_FILE m) w in
      case write_fault w1 of
        Some error \<Rightarrow> (Inl error, w1)
      | None \<Rightarrow> (Inr (), w1\<lparr> manifest_file := Holds m \<rparr>))"

subsection \<open>Collaborators: the Google stubs and the Pandoc conversions\<close>

text \<open>
  \<open>authenticate\<close> (\<open>src/src/auth.js\<close>), \<open>createDoc\<close> (\<open>drive.js\<close>) and
  \<open>formatDocument\<close> (\<open>docs.js\<close>) are stubs: they print what they would do and
  return.  \<open>createDoc\<close> returns \<open>stub_\<close> followed by a random suffix.
  \<open>convertMarkdownToDocx\<close> and \<open>convertDocxToMarkdown\<close> (\<open>pandoc.js\<close>) check that
  Pandoc answers, create the output directory and run one shell command.
\<close>

definition authenticate :: "world \<Rightarrow> world" where
  "authenticate w = emit Authenticate w"

definition createDoc :: "string \<Rightarrow> path \<Rightarrow> string option \<Rightarrow> world \<Rightarrow> string \<times> world" where
  "createDoc title docxPath folder w =
     (''stub_'' @ random_suffix w, emit (CreateDoc title docxPath folder) w)"

definition formatDocument :: "string \<Rightarrow> world \<Rightarrow> world" where
  "formatDocument docId w = emit (FormatDocument docId) w"

definition pandoc_missing :: js_error where
  "pandoc_missing =
     Error ''Pandoc is not installed. Install it from https://pandoc.org/installing.html''"

text \<open>The \<open>try\<close> block that both conversions end with: run the command, print the
  warnings, report the file.\<close>

definition run_pandoc_command :: "string \<Rightarrow> path \<Rightarrow> world \<Rightarrow> (js_error + path) \<times> world" where
  "run_pandoc_command command outputPath w =
     (let w1 = emit (Exec command) w in
      case exec w1 command of
        Fails m \<Rightarrow> (Inl (Error (''Pandoc conversion failed: '' @ m)), w1)
      | Exits out err \<Rightarrow>
          (let w2 = (if err \<noteq> [] \<and> \<not> sublist ''Warning'' err
                     then emit (ConsoleLog (''  Pandoc warnings: '' @ err)) w1
                     else w1);
               w3 = emit (ConsoleLog (''  '' @ check_mark @ '' Created '' @ outputPath)) w2
           in (Inr outputPath, w3)))"

definition convertMarkdownToDocx ::
  "path \<Rightarrow> string option \<Rightarrow> world \<Rightarrow> (js_error + path) \<times> world" where
  "convertMarkdownToDocx mdPath refdocPath w =
     (let w1 = emit (ConsoleLog (''  Converting '' @ mdPath @ '' to DOCX...'')) w;
          w2 = emit CheckPandocInstalled w1 in
      if \<not> pandoc_installed w2 then (Inl pandoc_missing, w2)
      else
        (let outputPath = path_join w2 ''dist'' (path_basename w2 mdPath ''.md'' @ ''.docx'');
             w3 = emit (Mkdir ''dist'') w2 in
         case mkdir_fault w3 ''dist'' of
           Some error \<Rightarrow> (Inl error, w3)
         | None \<Rightarrow>
             (let command = ''pandoc '' @ [dquote] @ mdPath @ [dquote] @ '' -o ''
                              @ [dquote] @ outputPath @ [dquote];
                  command = (if truthy refdocPath
                             then command @ '' --reference-doc='' @ [dquote]
                                    @ the_string refdocPath @ [dquote]
                             else command)
              in run_pandoc_command command outputPath w3)))"

definition convertDocxToMarkdown :: "path \<Rightarrow> path \<Rightarrow> world \<Rightarrow> (js_error + path) \<times> world" where
  "convertDocxToMarkdown docxPath outputPath w =
     (let w1 = emit (ConsoleLog (''  Converting '' @ docxPath @ '' to Markdown...'')) w;
          w2 = emit CheckPandocInstalled w1 in
      if \<not> pandoc_installed w2 then (Inl pandoc_missing, w2)
      else
        (let outputDir = path_dirname w2 outputPath;
             w3 = emit (Mkdir outputDir) w2 in
         case mkdir_fault w3 outputDir of
           Some error \<Rightarrow> (Inl error, w3)
         | None \<Rightarrow>
             (let command = ''pandoc '' @ [dquote] @ docxPath @ [dquote] @ '' -o ''
                              @ [dquote] @ outputPath @ [dquote]
                              @ '' --wrap=none --extract-media=.''
              in run_pandoc_command command outputPath w3)))"

subsection \<open>Options and outcomes\<close>

text \<open>
  The options object that the command-line parser passes; a flag that was not given is
  \<open>False\<close> or \<open>None\<close>.  \<open>pull\<close> reads \<open>dryRun\<close> only.
\<close>

record cli_options =
  dryRun :: bool
  refdoc :: "string option"
  folderId :: "string option"
  format :: bool

text \<open>
  A command is an \<open>async\<close> function: its promise is fulfilled, or rejected with the error
  that left the function.  The program registers the commands with \<open>program.parse()\<close>, sets
  no \<open>process.exitCode\<close> and never calls \<open>process.exit\<close>: after a fulfilled promise the
  process ends with the exit code 0, and a rejected promise, which nothing handles, ends it
  with the exit code 1.
\<close>

datatype outcome = Resolved | Rejected js_error

definition exit_code :: "outcome \<Rightarrow> nat" where
  "exit_code r = (case r of Resolved \<Rightarrow> 0 | Rejected error \<Rightarrow> 1)"

text \<open>The test \<open>fileInfo && fileInfo.gdocId\<close>, and the identifier it guards.\<close>

definition linked :: "file_info option \<Rightarrow> bool" where
  "linked fileInfo = (case fileInfo of None \<Rightarrow> False | Some info \<Rightarrow> truthy (gdocId info))"

definition linked_id :: "file_info option \<Rightarrow> string" where
  "linked_id fileInfo = (case fileInfo of None \<Rightarrow> [] | Some info \<Rightarrow> the_string (gdocId info))"

subsection \<open>\<open>link\<close>\<close>

definition linkCommand :: "path \<Rightarrow> string \<Rightarrow> world \<Rightarrow> outcome \<times> world" where
  "linkCommand filePath docId w =
     (let w1 = emit (ConsoleLog (''Linking '' @ filePath @ '' to Google Doc '' @ docId @ ''...'')) w in
      case loadManifest w1 of
        (Inl error, w2) \<Rightarrow> (Rejected error, w2)
      | (Inr m, w2) \<Rightarrow>
          (let m' = m\<lparr> files := (files m)(filePath \<mapsto>
                          \<lparr> gdocId = Some docId, lastSync = Some (clock w2) \<rparr>) \<rparr> in
           case saveManifest m' w2 of
             (Inl error, w3) \<Rightarrow> (Rejected error, w3)
           | (Inr u, w3) \<Rightarrow>
               (Resolved, emit (ConsoleLog (check_mark @ '' File linked successfully'')) w3)))"

subsection \<open>\<open>push\<close>\<close>

definition push_dry_run :: "cli_options \<Rightarrow> world \<Rightarrow> world" where
  "push_dry_run options w =
     (let w1 = emit (ConsoleLog ''[DRY RUN] Would perform the following steps:'') w;
          w2 = emit (ConsoleLog ''  1. Read Markdown file'') w1;
          w3 = emit (ConsoleLog (''  2. Would convert MD '' @ arrow @ '' DOCX using Pandoc'')) w2;
          w4 = (if truthy (refdoc options)
                then emit (ConsoleLog (''  3. Would apply reference document: ''
                                        @ the_string (refdoc options))) w3
                else w3);
          w5 = emit (ConsoleLog ''  4. Would authenticate with Google API'') w4;
          w6 = (if truthy (folderId options)
                then emit (ConsoleLog (''  5. Would create Google Doc in folder: ''
                                        @ the_string (folderId options))) w5
                else emit (ConsoleLog ''  5. Would create Google Doc in root'') w5);
          w7 = (if format options
                then emit (ConsoleLog
                             ''  6. Would apply formatting (double-space, margins, headers)'') w6
                else w6)
      in w7)"

text \<open>The \<open>try\<close> block of \<open>pushCommand\<close>; \<open>Inl\<close> is the error that reaches its \<open>catch\<close>.\<close>

definition push_try :: "path \<Rightarrow> cli_options \<Rightarrow> world \<Rightarrow> (js_error + unit) \<times> world" where
  "push_try filePath options w =
     (let w1 = authenticate w;
          w2 = emit (ConsoleLog (check_mark @ '' Authenticated with Google'')) w1 in
      case convertMarkdownToDocx filePath (refdoc options) w2 of
        (Inl error, w3) \<Rightarrow> (Inl error, w3)
      | (Inr docxPath, w3) \<Rightarrow>
          (let w4 = emit (ConsoleLog (check_mark @ '' Converted to DOCX: '' @ docxPath)) w3 in
           case loadManifest w4 of
             (Inl error, w5) \<Rightarrow> (Inl error, w5)
           | (Inr m, w5) \<Rightarrow>
               (let fileInfo = files m filePath in
                case (if linked fileInfo
                      then (let docId = linked_id fileInfo;
                                w6 = emit (ConsoleLog (''  Updating existing doc: '' @ docId)) w5
                            in (Inr docId, w6))
                      else (let (docId, w6) =
                                  createDoc (path_basename w5 filePath ''.md'') docxPath
                                    (folderId options) w5;
                                w7 = emit (ConsoleLog (check_mark @ '' Created new Google Doc: ''
                                                        @ docId)) w6;
                                m' = m\<lparr> files := (files m)(filePath \<mapsto>
                                        \<lparr> gdocId = Some docId, lastSync = Some (clock w7) \<rparr>) \<rparr>
                            in case saveManifest m' w7 of
                                 (Inl error, w8) \<Rightarrow> (Inl error, w8)
                               | (Inr u, w8) \<Rightarrow> (Inr docId, w8)))
                of
                  (Inl error, w9) \<Rightarrow> (Inl error, w9)
                | (Inr docId, w9) \<Rightarrow>
                    (let w10 = (if format options
                                then emit (ConsoleLog (check_mark @ '' Applied formatting''))
                                       (formatDocument docId w9)
                                else w9);
                         w11 = emit (ConsoleLog (newline # check_mark @ '' Successfully pushed ''
                                                  @ filePath)) w10;
                         w12 = emit (ConsoleLog (''  View at: https://docs.google.com/document/d/''
                                                  @ docId @ ''/edit'')) w11
                     in (Inr (), w12)))))"

definition pushCommand :: "path \<Rightarrow> cli_options \<Rightarrow> world \<Rightarrow> outcome \<times> world" where
  "pushCommand filePath options w =
     (let w1 = emit (ConsoleLog (''Pushing '' @ filePath @ '' to Google Docs...'')) w in
      if dryRun options then (Resolved, push_dry_run options w1)
      else
        (case push_try filePath options w1 of
           (Inr u, w2) \<Rightarrow> (Resolved, w2)
         | (Inl error, w2) \<Rightarrow>
             (Resolved, emit (ConsoleError (cross_mark @ '' Error: '' @ message error)) w2)))"

subsection \<open>\<open>pull\<close>\<close>

text \<open>
  The \<open>try\<close> block of \<open>pullCommand\<close>.  The assignment to \<open>lastSync\<close> is made on the entry
  of the file; without an entry it would throw a \<open>TypeError\<close>, which the guard before the
  block excludes.
\<close>

definition pull_try :: "path \<Rightarrow> manifest \<Rightarrow> world \<Rightarrow> (js_error + unit) \<times> world" where
  "pull_try filePath m w =
     (let w1 = authenticate w;
          w2 = emit (ConsoleLog (check_mark @ '' Authenticated with Google'')) w1;
          docxPath = path_join w2 ''dist'' (path_basename w2 filePath ''.md'' @ ''.docx'');
          w3 = emit (ConsoleLog (''  Downloaded to '' @ docxPath)) w2 in
      case convertDocxToMarkdown docxPath filePath w3 of
        (Inl error, w4) \<Rightarrow> (Inl error, w4)
      | (Inr p, w4) \<Rightarrow>
          (let w5 = emit (ConsoleLog (check_mark @ '' Converted to Markdown: '' @ filePath)) w4 in
           case files m filePath of
             None \<Rightarrow>
               (Inl (Error ''Cannot set properties of undefined (setting 'lastSync')''), w5)
           | Some info \<Rightarrow>
               (let m' = m\<lparr> files := (files m)(filePath \<mapsto>
                               info\<lparr> lastSync := Some (clock w5) \<rparr>) \<rparr> in
                case saveManifest m' w5 of
                  (Inl error, w6) \<Rightarrow> (Inl error, w6)
                | (Inr u, w6) \<Rightarrow>
                    (Inr (), emit (ConsoleLog (newline # check_mark @ '' Successfully pulled ''
                                                @ filePath)) w6))))"

definition pullCommand :: "path \<Rightarrow> cli_options \<Rightarrow> world \<Rightarrow> outcome \<times> world" where
  "pullCommand filePath options w =
     (let w1 = emit (ConsoleLog (''Pulling '' @ filePath @ '' from Google Docs...'')) w in
      case loadManifest w1 of
        (Inl error, w2) \<Rightarrow> (Rejected error, w2)
      | (Inr m, w2) \<Rightarrow>
          (let fileInfo = files m filePath in
           if \<not> linked fileInfo then
             (let w3 = emit (ConsoleError (cross_mark @ '' No Google Doc linked to ''
                                            @ filePath)) w2;
                  w4 = emit (ConsoleLog (''  Run '' @ [dquote] @ ''draftsync link <file> <gdoc-id>''
                                          @ [dquote] @ '' first'')) w3
              in (Resolved, w4))
           else if dryRun options then
             (let w3 = emit (ConsoleLog ''[DRY RUN] Would perform the following steps:'') w2;
                  w4 = emit (ConsoleLog ''  1. Would authenticate with Google API'') w3;
                  w5 = emit (ConsoleLog (''  2. Would export Google Doc ''
                                          @ linked_id fileInfo @ '' as DOCX'')) w4;
                  w6 = emit (ConsoleLog (''  3. Would convert DOCX '' @ arrow
                                          @ '' MD using Pandoc'')) w5;
                  w7 = emit (ConsoleLog (''  4. Would save to '' @ filePath)) w6
              in (Resolved, w7))
           else
             (case pull_try filePath m w2 of
                (Inr u, w3) \<Rightarrow> (Resolved, w3)
              | (Inl error, w3) \<Rightarrow>
                  (Resolved, emit (ConsoleError (cross_mark @ '' Error: '' @ message error)) w3))))"

section \<open>Predicates of the verification\<close>


definition tail_ok :: "string \<Rightarrow> bool" where
  "tail_ok rest = (case rest of [] \<Rightarrow> True | c # _ \<Rightarrow> \<not> is_digit c)"

definition value_start :: "char \<Rightarrow> bool" where
  "value_start c = (c \<in> {CHR ''['', CHR ''{'', dquote, CHR ''t'', CHR ''f'', CHR ''n'', CHR ''-''} \<or> is_digit c)"


text \<open>
  The events of a trace that are not console output; among them, the invocations of the
  external tool and the writes of the manifest.
\<close>

definition is_console :: "event \<Rightarrow> bool" where
  "is_console e = (case e of ConsoleLog s \<Rightarrow> True | ConsoleError s \<Rightarrow> True | _ \<Rightarrow> False)"

definition io_events :: "event list \<Rightarrow> event list" where
  "io_events t = filter (\<lambda>e. \<not> is_console e) t"

definition is_tool_call :: "event \<Rightarrow> bool" where
  "is_tool_call e = (case e of Exec c \<Rightarrow> True | CheckPandocInstalled \<Rightarrow> True | _ \<Rightarrow> False)"

definition invoker_calls :: "event list \<Rightarrow> event list" where
  "invoker_calls t = filter is_tool_call t"

definition is_manifest_write :: "event \<Rightarrow> bool" where
  "is_manifest_write e = (case e of WriteFile p m \<Rightarrow> True | _ \<Rightarrow> False)"

definition manifest_writes :: "event list \<Rightarrow> event list" where
  "manifest_writes t = filter is_manifest_write t"

text \<open>
  Concrete inputs: a manifest that links \<open>content/ch1.md\<close>, and a world on a POSIX
  platform in which every step of the environment succeeds.
\<close>

definition linked_manifest :: manifest where
  "linked_manifest =
     \<lparr> version = Some ''1.0'',
       files = [''content/ch1.md'' \<mapsto>
                  \<lparr> gdocId = Some ''abc123'', lastSync = Some ''2025-01-01T00:00:00.000Z'' \<rparr>],
       config = Some [(''contentDir'', ''content''), (''distDir'', ''dist''),
                      (''templatesDir'', ''templates'')] \<rparr>"

definition calm_world :: "manifest_file \<Rightarrow> world" where
  "calm_world f =
     \<lparr> manifest_file = f,
       write_fault = None,
       clock = ''2026-03-04T05:06:07.000Z'',
       pandoc_installed = True,
       mkdir_fault = (\<lambda>p. None),
       exec = (\<lambda>c. Exits [] []),
       random_suffix = ''k3x9q'',
       path_basename = (\<lambda>p ext. ''ch1''),
       path_dirname = (\<lambda>p. ''content''),
       path_join = (\<lambda>a b. a @ ''/'' @ b),
       trace = [] \<rparr>"

definition real_run :: cli_options where
  "real_run = \<lparr> dryRun = False, refdoc = None, folderId = None, format = False \<rparr>"

definition dry_run :: cli_options where
  "dry_run = \<lparr> dryRun = True, refdoc = None, folderId = None, format = False \<rparr>"






section \<open>\<open>JSON.parse\<close> inverts \<open>JSON.stringify\<close>\<close>

subsection \<open>Decimal digits\<close>

lemma is_digit_digit_char: "d < 10 \<Longrightarrow> is_digit (digit_char d)"
  by (simp add: is_digit_def digit_char_def of_char_of)

lemma digit_value_digit_char: "d < 10 \<Longrightarrow> digit_value (digit_char d) = d"
  by (simp add: digit_value_def digit_char_def of_char_of)

lemma string_of_nat_digits: "list_all is_digit (string_of_nat n)"
proof (induction n rule: string_of_nat.induct)
  case (1 n)
  then show ?case
    by (subst string_of_nat.simps) (simp add: is_digit_digit_char)
qed

lemma string_of_nat_nonempty: "string_of_nat n \<noteq> []"
  by (subst string_of_nat.simps) simp

lemma nat_of_digits_snoc: "nat_of_digits (ds @ [d]) = 10 * nat_of_digits ds + digit_value d"
  by (simp add: nat_of_digits_def)

lemma nat_of_digits_string_of_nat: "nat_of_digits (string_of_nat n) = n"
proof (induction n rule: string_of_nat.induct)
  case (1 n)
  show ?case
  proof (cases "n < 10")
    case True
    then show ?thesis
      by (subst string_of_nat.simps) (simp add: nat_of_digits_def digit_value_digit_char)
  next
    case False
    with 1 have "nat_of_digits (string_of_nat (n div 10)) = n div 10" by simp
    with False show ?thesis
      by (subst string_of_nat.simps) (simp add: nat_of_digits_snoc digit_value_digit_char)
  qed
qed

lemma digit_char_zero: "d < 10 \<Longrightarrow> digit_char d = CHR ''0'' \<Longrightarrow> d = 0"
  using digit_value_digit_char [of d] by (simp add: digit_value_def)

lemma string_of_nat_hd: "0 < n \<Longrightarrow> hd (string_of_nat n) \<noteq> CHR ''0''"
proof (induction n rule: string_of_nat.induct)
  case (1 n)
  show ?case
  proof (cases "n < 10")
    case True
    with 1(2) show ?thesis
      by (subst string_of_nat.simps) (auto dest: digit_char_zero)
  next
    case False
    then have "0 < n div 10" by simp
    with 1 False have "hd (string_of_nat (n div 10)) \<noteq> CHR ''0''" by simp
    with False show ?thesis
      by (subst string_of_nat.simps) (simp add: string_of_nat_nonempty)
  qed
qed

lemma string_of_nat_length: "1 < length (string_of_nat n) \<Longrightarrow> 0 < n"
  by (cases "n = 0") (simp_all add: string_of_nat.simps [of 0])


lemma takeWhile_digits:
  "list_all is_digit ds \<Longrightarrow> tail_ok rest \<Longrightarrow> takeWhile is_digit (ds @ rest) = ds"
  by (induction ds) (auto simp: tail_ok_def split: list.splits)

lemma dropWhile_digits:
  "list_all is_digit ds \<Longrightarrow> tail_ok rest \<Longrightarrow> dropWhile is_digit (ds @ rest) = rest"
  by (induction ds) (auto simp: tail_ok_def split: list.splits)

lemma string_of_nat_not_minus: "hd (string_of_nat n @ rest) \<noteq> CHR ''-''"
proof -
  obtain c cs where eq: "string_of_nat n = c # cs"
    using string_of_nat_nonempty [of n] by (cases "string_of_nat n") auto
  with string_of_nat_digits [of n] have "is_digit c" by simp
  then have "c \<noteq> CHR ''-''" by (auto simp: is_digit_def)
  with eq show ?thesis by simp
qed

lemma parse_number_digits:
  assumes "ds = c # cs" "list_all is_digit ds" "tail_ok rest"
    and "\<not> (hd ds = CHR ''0'' \<and> 1 < length ds)"
  shows "parse_number (ds @ rest) = Some (JNum (int (nat_of_digits ds)), rest)"
proof -
  have "is_digit c" using assms(1,2) by simp
  then have nm: "c \<noteq> CHR ''-''" by (auto simp: is_digit_def)
  have tw: "takeWhile is_digit (ds @ rest) = ds" "dropWhile is_digit (ds @ rest) = rest"
    using assms by (simp_all add: takeWhile_digits dropWhile_digits)
  have neg: "(case ds @ rest of [] \<Rightarrow> False | c # r \<Rightarrow> c = CHR ''-'') = False"
    using nm assms(1) by simp
  show ?thesis
    unfolding parse_number_def neg using tw assms(1,4) by (simp add: Let_def)
qed

lemma parse_number_minus_digits:
  assumes "ds = c # cs" "list_all is_digit ds" "tail_ok rest"
    and "\<not> (hd ds = CHR ''0'' \<and> 1 < length ds)"
  shows "parse_number (CHR ''-'' # ds @ rest) = Some (JNum (- int (nat_of_digits ds)), rest)"
proof -
  have tw: "takeWhile is_digit (ds @ rest) = ds" "dropWhile is_digit (ds @ rest) = rest"
    using assms by (simp_all add: takeWhile_digits dropWhile_digits)
  show ?thesis
    unfolding parse_number_def using tw assms(1,4) by (simp add: Let_def)
qed

lemma parse_number_string_of_int:
  assumes "tail_ok rest"
  shows "parse_number (string_of_int i @ rest) = Some (JNum i, rest)"
proof -
  have *: "\<And>n. \<exists>c cs. string_of_nat n = c # cs"
    using string_of_nat_nonempty by (metis list.exhaust)
  have lead: "\<And>n. \<not> (hd (string_of_nat n) = CHR ''0'' \<and> 1 < length (string_of_nat n))"
    using string_of_nat_hd string_of_nat_length by blast
  show ?thesis
  proof (cases "i < 0")
    case True
    obtain c cs where "string_of_nat (nat (- i)) = c # cs" using * by blast
    from parse_number_minus_digits [OF this string_of_nat_digits assms lead] True
    show ?thesis by (simp add: string_of_int_def nat_of_digits_string_of_nat)
  next
    case False
    obtain c cs where "string_of_nat (nat i) = c # cs" using * by blast
    from parse_number_digits [OF this string_of_nat_digits assms lead] False
    show ?thesis by (simp add: string_of_int_def nat_of_digits_string_of_nat)
  qed
qed


subsection \<open>Strings\<close>







subsection \<open>White space and the first character of a value\<close>

lemma skip_ws_nl_indent [simp]: "skip_ws (nl_indent k @ cs) = skip_ws cs"
  by (induction k) (simp_all add: nl_indent_def skip_ws_def is_ws_def)

lemma skip_ws_space [simp]: "skip_ws (CHR '' '' # cs) = skip_ws cs"
  by (simp add: skip_ws_def is_ws_def)

lemma skip_ws_nonws: "\<not> is_ws c \<Longrightarrow> skip_ws (c # cs) = c # cs"
  by (simp add: skip_ws_def)





text \<open>The first character of a serialised value.\<close>


lemma string_of_int_start: "\<exists>c cs. string_of_int i = c # cs \<and> (c = CHR ''-'' \<or> is_digit c)"
proof -
  have "\<exists>c cs. string_of_nat n = c # cs \<and> is_digit c" for n
    using string_of_nat_nonempty [of n] string_of_nat_digits [of n]
    by (cases "string_of_nat n") simp_all
  from this [of "nat i"] this [of "nat (- i)"] show ?thesis
    by (cases "i < 0") (auto simp: string_of_int_def)
qed

lemma stringify_start: "\<exists>c cs. stringify ind v = c # cs \<and> value_start c"
proof (cases v)
  case (JNum i)
  then show ?thesis using string_of_int_start [of i] by (auto simp: value_start_def)
next
  case (JArr xs)
  then show ?thesis by (cases xs) (auto simp: value_start_def)
next
  case (JObj kvs)
  then show ?thesis by (cases kvs) (auto simp: value_start_def)
qed (auto simp: value_start_def quote_def)

lemma value_start_facts:
  assumes "value_start c"
  shows "\<not> is_ws c" "c \<noteq> CHR '']''" "c \<noteq> CHR ''}''" "c \<noteq> CHR '',''"
  using assms by (auto simp: value_start_def is_ws_def is_digit_def)


subsection \<open>One step of the parser on each kind of value\<close>

lemma skip_ws_idem [simp]: "skip_ws (skip_ws cs) = skip_ws cs"
  by (simp add: skip_ws_def)

lemma skip_ws_stringify:
  "skip_ws (stringify ind v @ rest) = stringify ind v @ rest"
  using stringify_start [of ind v] by (auto simp: skip_ws_nonws value_start_facts)














subsection \<open>Objects without duplicate keys\<close>





subsection \<open>Parsing a serialised value\<close>






subsection \<open>The bound of the parser is never exhausted\<close>

text \<open>
  Every result of the parser leaves less input than it was given, so a recursive call always
  finds a bound above the length of its input: the result does not depend on the bound, once
  the bound is above the length of the text.
\<close>

lemma skip_ws_length: "length (skip_ws cs) \<le> length cs"
  by (simp add: skip_ws_def length_dropWhile_le)

lemma skip_ws_Cons_length: "skip_ws cs = c # r \<Longrightarrow> length r < length cs"
  using skip_ws_length [of cs] by simp

lemma parse_chars_length: "parse_chars cs = Some (s, r) \<Longrightarrow> length r < length cs"
proof (induction cs arbitrary: s rule: parse_chars.induct)
  case 1
  then show ?case by simp
next
  case (2 c cs)
  then show ?case
    by (fastforce split: if_splits list.splits option.splits)
qed

lemma parse_number_length: "parse_number cs = Some (v, r) \<Longrightarrow> length r < length cs"
proof -
  assume a: "parse_number cs = Some (v, r)"
  define cs1 where "cs1 = (if (case cs of [] \<Rightarrow> False | c # r \<Rightarrow> c = CHR ''-'') then tl cs else cs)"
  have *: "takeWhile is_digit xs \<noteq> [] \<Longrightarrow> length (dropWhile is_digit xs) < length xs" for xs
    by (cases xs) (auto simp: le_imp_less_Suc length_dropWhile_le split: if_splits)
  from a have "takeWhile is_digit cs1 \<noteq> []" "r = dropWhile is_digit cs1"
    by (auto simp: parse_number_def Let_def cs1_def split: if_splits)
  with * [of cs1] have "length r < length cs1" by simp
  moreover have "length cs1 \<le> length cs" by (simp add: cs1_def)
  ultimately show ?thesis by simp
qed

lemma parse_key_length: "parse_key cs = Some (k, r) \<Longrightarrow> length r < length cs"
  by (auto simp: parse_key_def split: list.splits if_splits option.splits
           dest!: skip_ws_Cons_length parse_chars_length)


lemma parse_length:
  "parse_value n cs = Some (v, r) \<Longrightarrow> length r < length cs"
  "parse_elems n cs = Some (xs, r) \<Longrightarrow> length r < length cs"
  "parse_members n cs = Some (kvs, r) \<Longrightarrow> length r < length cs"
proof (induction n cs and n cs and n cs arbitrary: v r and xs r and kvs r
       rule: parse_value_parse_elems_parse_members.induct)
  case (1 cs)
  then show ?case by simp
next
  case (2 n cs)
  from "2.prems" obtain c t where sk: "skip_ws cs = c # t"
    by (cases "skip_ws cs") auto
  have t: "length t < length cs" using sk by (rule skip_ws_Cons_length)
  consider (arr) "c = CHR ''[''" | (obj) "c = CHR ''{''" | (str) "c = dquote"
    | (other) "c \<noteq> CHR ''[''" "c \<noteq> CHR ''{''" "c \<noteq> dquote" by blast
  then show ?case
  proof cases
    case arr
    from "2.prems" sk arr obtain d t' where sk2: "skip_ws t = d # t'"
      by (cases "skip_ws t") auto
    have t': "length (d # t') \<le> length t" using skip_ws_length [of t] sk2 by simp
    show ?thesis
    proof (cases "d = CHR '']''")
      case True
      with "2.prems" sk arr sk2 t t' show ?thesis by auto
    next
      case False
      with "2.prems" sk arr sk2 obtain x r1 ys where
        pv: "parse_value n (d # t') = Some (x, r1)" and pe: "parse_elems n r1 = Some (ys, r)"
        by (auto split: option.splits)
      from "2.IH"(1) [OF sk arr sk2 False pv] have "length r1 < length (d # t')" .
      moreover from "2.IH"(2) [OF sk arr sk2 False _ _ pe] pv have "length r < length r1" by simp
      ultimately show ?thesis using t t' by simp
    qed
  next
    case obj
    from "2.prems" sk obj obtain d t' where sk2: "skip_ws t = d # t'"
      by (cases "skip_ws t") auto
    have t': "length (d # t') \<le> length t" using skip_ws_length [of t] sk2 by simp
    have ne: "c \<noteq> CHR ''[''" using obj by simp
    show ?thesis
    proof (cases "d = CHR ''}''")
      case True
      with "2.prems" sk obj sk2 t t' show ?thesis by auto
    next
      case False
      with "2.prems" sk obj sk2 obtain k r1 x r2 ys where
        pk: "parse_key (d # t') = Some (k, r1)" and pv: "parse_value n r1 = Some (x, r2)"
        and pm: "parse_members n r2 = Some (ys, r)"
        by (auto split: option.splits)
      from parse_key_length [OF pk] have "length r1 < length (d # t')" .
      moreover from "2.IH"(3) [OF sk ne obj sk2 False _ _ pv] pk have "length r2 < length r1" by simp
      moreover from "2.IH"(4) [OF sk ne obj sk2 False _ _ _ _ pm] pk pv have "length r < length r2"
        by simp
      ultimately show ?thesis using t t' by simp
    qed
  next
    case str
    with "2.prems" sk obtain s where "parse_chars t = Some (s, r)"
      by (auto split: option.splits)
    from parse_chars_length [OF this] t show ?thesis by simp
  next
    case other
    with "2.prems" sk have
      "r = drop 4 (c # t) \<and> 4 \<le> length (c # t) \<or> r = drop 5 (c # t) \<and> 5 \<le> length (c # t)
       \<or> parse_number (c # t) = Some (v, r)"
      by (auto split: if_splits)
    then show ?thesis using t parse_number_length [of "c # t" v r] by auto
  qed
next
  case (3 cs)
  then show ?case by simp
next
  case (4 n cs)
  from "4.prems" obtain c t where sk: "skip_ws cs = c # t"
    by (cases "skip_ws cs") auto
  have t: "length t < length cs" using sk by (rule skip_ws_Cons_length)
  show ?case
  proof (cases "c = CHR '']''")
    case True
    with "4.prems" sk t show ?thesis by simp
  next
    case False
    with "4.prems" sk have comma: "c = CHR '',''" by (auto split: if_splits)
    with "4.prems" sk False obtain x r1 ys where
      pv: "parse_value n t = Some (x, r1)" and pe: "parse_elems n r1 = Some (ys, r)"
      by (auto split: option.splits)
    from "4.IH"(1) [OF sk False comma pv] have "length r1 < length t" .
    moreover from "4.IH"(2) [OF sk False comma _ _ pe] pv have "length r < length r1" by simp
    ultimately show ?thesis using t by simp
  qed
next
  case (5 cs)
  then show ?case by simp
next
  case (6 n cs)
  from "6.prems" obtain c t where sk: "skip_ws cs = c # t"
    by (cases "skip_ws cs") auto
  have t: "length t < length cs" using sk by (rule skip_ws_Cons_length)
  show ?case
  proof (cases "c = CHR ''}''")
    case True
    with "6.prems" sk t show ?thesis by simp
  next
    case False
    with "6.prems" sk have comma: "c = CHR '',''" by (auto split: if_splits)
    with "6.prems" sk False obtain k r1 x r2 ys where
      pk: "parse_key t = Some (k, r1)" and pv: "parse_value n r1 = Some (x, r2)"
      and pm: "parse_members n r2 = Some (ys, r)"
      by (auto split: option.splits)
    from parse_key_length [OF pk] have "length r1 < length t" .
    moreover from "6.IH"(1) [OF sk False comma _ _ pv] pk have "length r2 < length r1" by simp
    moreover from "6.IH"(2) [OF sk False comma _ _ _ _ pm] pk pv have "length r < length r2"
      by simp
    ultimately show ?thesis using t by simp
  qed
qed


lemma parse_fuel:
  "length cs < n \<Longrightarrow> length cs < m \<Longrightarrow> parse_value n cs = parse_value m cs"
  "length cs < n \<Longrightarrow> length cs < m \<Longrightarrow> parse_elems n cs = parse_elems m cs"
  "length cs < n \<Longrightarrow> length cs < m \<Longrightarrow> parse_members n cs = parse_members m cs"
proof (induction n cs and n cs and n cs arbitrary: m and m and m
       rule: parse_value_parse_elems_parse_members.induct)
  case (1 cs)
  then show ?case by simp
next
  case (2 n cs)
  from "2.prems" obtain m' where m: "m = Suc m'" by (cases m) auto
  show ?case
  proof (cases "skip_ws cs")
    case Nil
    then show ?thesis using m by simp
  next
    case (Cons c t)
    have t: "length t < length cs" using Cons by (rule skip_ws_Cons_length)
    consider (arr) "c = CHR ''[''" | (obj) "c = CHR ''{''" "c \<noteq> CHR ''[''"
      | (other) "c \<noteq> CHR ''[''" "c \<noteq> CHR ''{''" by blast
    then show ?thesis
    proof cases
      case arr
      show ?thesis
      proof (cases "skip_ws t")
        case Nil
        then show ?thesis using m Cons arr by simp
      next
        case sk2: (Cons d t')
        have t': "length (d # t') \<le> length t" using skip_ws_length [of t] sk2 by simp
        show ?thesis
        proof (cases "d = CHR '']''")
          case True
          then show ?thesis using m Cons arr sk2 by simp
        next
          case False
          have b: "length (d # t') < n" "length (d # t') < m'"
            using t t' "2.prems" m by simp_all
          have e1: "parse_value n (d # t') = parse_value m' (d # t')"
            using "2.IH"(1) [OF Cons arr sk2 False b] .
          have e2: "parse_elems n r1 = parse_elems m' r1"
            if "parse_value n (d # t') = Some (x, r1)" for x r1
          proof -
            from parse_length(1) [OF that] b have "length r1 < n" "length r1 < m'" by simp_all
            from "2.IH"(2) [OF Cons arr sk2 False that _ this] show ?thesis by simp
          qed
          show ?thesis
            using m Cons arr sk2 False e1 e2 by (auto split: option.splits)
        qed
      qed
    next
      case obj
      show ?thesis
      proof (cases "skip_ws t")
        case Nil
        then show ?thesis using m Cons obj by simp
      next
        case sk2: (Cons d t')
        have t': "length (d # t') \<le> length t" using skip_ws_length [of t] sk2 by simp
        show ?thesis
        proof (cases "d = CHR ''}''")
          case True
          then show ?thesis using m Cons obj sk2 by simp
        next
          case False
          have e1: "parse_value n r1 = parse_value m' r1"
            if "parse_key (d # t') = Some (k, r1)" for k r1
          proof -
            from parse_key_length [OF that] t t' "2.prems" m
            have "length r1 < n" "length r1 < m'" by simp_all
            from "2.IH"(3) [OF Cons obj(2) obj(1) sk2 False that _ this] show ?thesis by simp
          qed
          have e2: "parse_members n r2 = parse_members m' r2"
            if "parse_key (d # t') = Some (k, r1)" "parse_value n r1 = Some (x, r2)" for k r1 x r2
          proof -
            from parse_key_length [OF that(1)] parse_length(1) [OF that(2)] t t' "2.prems" m
            have "length r2 < n" "length r2 < m'" by simp_all
            from "2.IH"(4) [OF Cons obj(2) obj(1) sk2 False that(1) _ that(2) _ this]
            show ?thesis by simp
          qed
          show ?thesis
            using m Cons obj sk2 False e1 e2 by (auto split: option.splits)
        qed
      qed
    next
      case other
      then show ?thesis using m Cons by simp
    qed
  qed
next
  case (3 cs)
  then show ?case by simp
next
  case (4 n cs)
  from "4.prems" obtain m' where m: "m = Suc m'" by (cases m) auto
  show ?case
  proof (cases "skip_ws cs")
    case Nil
    then show ?thesis using m by simp
  next
    case (Cons c t)
    have t: "length t < length cs" using Cons by (rule skip_ws_Cons_length)
    show ?thesis
    proof (cases "c \<noteq> CHR '']'' \<and> c = CHR '',''")
      case False
      then show ?thesis using m Cons by auto
    next
      case True
      then have c: "c \<noteq> CHR '']''" "c = CHR '',''" by simp_all
      have b: "length t < n" "length t < m'" using t "4.prems" m by simp_all
      have e1: "parse_value n t = parse_value m' t"
        using "4.IH"(1) [OF Cons c b] .
      have e2: "parse_elems n r1 = parse_elems m' r1" if "parse_value n t = Some (x, r1)" for x r1
      proof -
        from parse_length(1) [OF that] b have "length r1 < n" "length r1 < m'" by simp_all
        from "4.IH"(2) [OF Cons c that _ this] show ?thesis by simp
      qed
      show ?thesis using m Cons c e1 e2 by (auto split: option.splits)
    qed
  qed
next
  case (5 cs)
  then show ?case by simp
next
  case (6 n cs)
  from "6.prems" obtain m' where m: "m = Suc m'" by (cases m) auto
  show ?case
  proof (cases "skip_ws cs")
    case Nil
    then show ?thesis using m by simp
  next
    case (Cons c t)
    have t: "length t < length cs" using Cons by (rule skip_ws_Cons_length)
    show ?thesis
    proof (cases "c \<noteq> CHR ''}'' \<and> c = CHR '',''")
      case False
      then show ?thesis using m Cons by auto
    next
      case True
      then have c: "c \<noteq> CHR ''}''" "c = CHR '',''" by simp_all
      have e1: "parse_value n r1 = parse_value m' r1" if "parse_key t = Some (k, r1)" for k r1
      proof -
        from parse_key_length [OF that] t "6.prems" m
        have "length r1 < n" "length r1 < m'" by simp_all
        from "6.IH"(1) [OF Cons c that _ this] show ?thesis by simp
      qed
      have e2: "parse_members n r2 = parse_members m' r2"
        if "parse_key t = Some (k, r1)" "parse_value n r1 = Some (x, r2)" for k r1 x r2
      proof -
        from parse_key_length [OF that(1)] parse_length(1) [OF that(2)] t "6.prems" m
        have "length r2 < n" "length r2 < m'" by simp_all
        from "6.IH"(2) [OF Cons c that(1) _ that(2) _ this] show ?thesis by simp
      qed
      show ?thesis using m Cons c e1 e2 by (auto split: option.splits)
    qed
  qed
qed

lemma JSON_parse_fuel:
  assumes "length text < n"
  shows "JSON_parse text =
           (case parse_value n text of
              None \<Rightarrow> Inl (SyntaxError json_syntax_message)
            | Some (v, rest) \<Rightarrow>
                if skip_ws rest = [] then Inr v else Inl (SyntaxError json_syntax_message))"
  using parse_fuel(1) [OF assms, of "Suc (length text)"] by (simp add: JSON_parse_def)

section \<open>The manifest store\<close>













section \<open>The commands\<close>

lemma emit_fields [simp]:
  "trace (emit e w) = trace w @ [e]"
  "manifest_file (emit e w) = manifest_file w"
  "write_fault (emit e w) = write_fault w"
  "clock (emit e w) = clock w"
  "pandoc_installed (emit e w) = pandoc_installed w"
  "mkdir_fault (emit e w) = mkdir_fault w"
  "exec (emit e w) = exec w"
  "random_suffix (emit e w) = random_suffix w"
  "path_basename (emit e w) = path_basename w"
  "path_dirname (emit e w) = path_dirname w"
  "path_join (emit e w) = path_join w"
  by (simp_all add: emit_def)

lemma io_events_simps [simp]:
  "io_events [] = []"
  "io_events (e # t) = (if is_console e then io_events t else e # io_events t)"
  "io_events (t @ u) = io_events t @ io_events u"
  by (simp_all add: io_events_def)

lemma invoker_calls_simps [simp]:
  "invoker_calls [] = []"
  "invoker_calls (e # t) = (if is_tool_call e then e # invoker_calls t else invoker_calls t)"
  "invoker_calls (t @ u) = invoker_calls t @ invoker_calls u"
  by (simp_all add: invoker_calls_def)

lemma manifest_writes_simps [simp]:
  "manifest_writes [] = []"
  "manifest_writes (e # t) = (if is_manifest_write e then e # manifest_writes t else manifest_writes t)"
  "manifest_writes (t @ u) = manifest_writes t @ manifest_writes u"
  by (simp_all add: manifest_writes_def)

lemma event_kinds [simp]:
  "is_console (ConsoleLog s)" "is_console (ConsoleError s)"
  "\<not> is_console (ReadFile p)" "\<not> is_console (WriteFile p m)" "\<not> is_console Authenticate"
  "\<not> is_console CheckPandocInstalled" "\<not> is_console (Mkdir p)" "\<not> is_console (Exec c)"
  "\<not> is_tool_call (ConsoleLog s)" "\<not> is_tool_call (ConsoleError s)" "\<not> is_tool_call (ReadFile p)"
  "\<not> is_manifest_write (ConsoleLog s)" "\<not> is_manifest_write (ConsoleError s)"
  "\<not> is_manifest_write (ReadFile p)"
  by (simp_all add: is_console_def is_tool_call_def is_manifest_write_def)






lemma push_dry_run_trace:
  "io_events (trace (push_dry_run options w)) = io_events (trace w)"
  "invoker_calls (trace (push_dry_run options w)) = invoker_calls (trace w)"
  "manifest_writes (trace (push_dry_run options w)) = manifest_writes (trace w)"
  "manifest_file (push_dry_run options w) = manifest_file w"
  by (simp_all add: push_dry_run_def Let_def)

lemma pull_dry_run_effects:
  assumes "dryRun options"
  shows "io_events (trace (snd (pullCommand filePath options w)))
           = io_events (trace w) @ [ReadFile MANIFEST_FILE]"
    and "manifest_file (snd (pullCommand filePath options w)) = manifest_file w"
  using assms
  by (auto simp: pullCommand_def loadManifest_def Let_def
           split: manifest_file.splits sum.splits prod.splits)

text \<open>
  Claim C6.  With \<open>--dry-run\<close>, \<open>push\<close> and \<open>pull\<close> never invoke the external tool and never
  write the manifest.  \<open>push\<close> has no effect but console output and ends successfully in
  every world, also in one where the source file does not exist (where every conversion
  would fail); \<open>pull\<close> reads the manifest file and has no other effect.  The manifest file
  is left as it was.
\<close>

theorem dry_run_purity:
  assumes "dryRun options"
  shows "fst (pushCommand filePath options w) = Resolved
       \<and> exit_code (fst (pushCommand filePath options w)) = 0
       \<and> io_events (trace (snd (pushCommand filePath options w))) = io_events (trace w)
       \<and> invoker_calls (trace (snd (pushCommand filePath options w))) = invoker_calls (trace w)
       \<and> manifest_writes (trace (snd (pushCommand filePath options w))) = manifest_writes (trace w)
       \<and> manifest_file (snd (pushCommand filePath options w)) = manifest_file w
       \<and> io_events (trace (snd (pullCommand filePath options w)))
           = io_events (trace w) @ [ReadFile MANIFEST_FILE]
       \<and> invoker_calls (trace (snd (pullCommand filePath options w))) = invoker_calls (trace w)
       \<and> manifest_writes (trace (snd (pullCommand filePath options w))) = manifest_writes (trace w)
       \<and> manifest_file (snd (pullCommand filePath options w)) = manifest_file w"
proof -
  have push: "pushCommand filePath options w =
                (Resolved, push_dry_run options
                   (emit (ConsoleLog (''Pushing '' @ filePath @ '' to Google Docs...'')) w))"
    using assms by (simp add: pushCommand_def Let_def)
  have io: "io_events (trace (snd (pullCommand filePath options w)))
              = io_events (trace w) @ [ReadFile MANIFEST_FILE]"
    using assms by (rule pull_dry_run_effects)
  have sub: "invoker_calls t = invoker_calls (io_events t)"
            "manifest_writes t = manifest_writes (io_events t)" for t
    by (induction t) (auto simp: is_console_def is_tool_call_def is_manifest_write_def
                           split: event.splits)
  have "invoker_calls (trace (snd (pullCommand filePath options w))) = invoker_calls (trace w)"
    using sub(1) [of "trace (snd (pullCommand filePath options w))"] sub(1) [of "trace w"] io
    by simp
  moreover
  have "manifest_writes (trace (snd (pullCommand filePath options w))) = manifest_writes (trace w)"
    using sub(2) [of "trace (snd (pullCommand filePath options w))"] sub(2) [of "trace w"] io
    by simp
  ultimately show ?thesis
    using io pull_dry_run_effects(2) [OF assms]
    by (simp add: push push_dry_run_trace exit_code_def)
qed

theorem dry_run_purity_witness:
  "dryRun dry_run
   \<and> exit_code (fst (pushCommand ''does-not-exist.md'' dry_run
                       ((calm_world Absent)\<lparr> exec := (\<lambda>c. Fails ''Command failed'') \<rparr>))) = 0
   \<and> io_events (trace (snd (pushCommand ''does-not-exist.md'' dry_run
                       ((calm_world Absent)\<lparr> exec := (\<lambda>c. Fails ''Command failed'') \<rparr>)))) = []
   \<and> io_events (trace (snd (pullCommand ''content/ch1.md'' dry_run
                       (calm_world (Holds linked_manifest))))) = [ReadFile ''.draftsync.json'']
   \<and> manifest_file (snd (pullCommand ''content/ch1.md'' dry_run
                       (calm_world (Holds linked_manifest)))) = Holds linked_manifest"
proof -
  let ?w1 = "(calm_world Absent)\<lparr> exec := (\<lambda>c. Fails ''Command failed'') \<rparr>"
  let ?w2 = "calm_world (Holds linked_manifest)"
  have d: "dryRun dry_run" by (simp add: dry_run_def)
  have w: "trace ?w1 = []" "trace ?w2 = []" "manifest_file ?w2 = Holds linked_manifest"
    by (simp_all add: calm_world_def)
  show ?thesis
    using dry_run_purity [OF d, of "''does-not-exist.md''" ?w1]
          dry_run_purity [OF d, of "''content/ch1.md''" ?w2] d w
    by (simp add: MANIFEST_FILE_def exit_code_def)
qed


section \<open>The argument builders and the direct conversions\<close>

text \<open>
  Claim C7, as the code has it.  \<open>buildMdToDocxArgs\<close> returns the source path, \<open>-o\<close> and the
  destination path, followed by \<open>--reference-doc\<close> and the style reference exactly when the
  style reference is given and is not the empty string; \<open>buildDocxToMdArgs\<close> returns the
  source path, \<open>-o\<close> and the destination path.  Both are functions of their arguments alone.
\<close>

theorem build_args_exact:
  "buildMdToDocxArgs src dst None = [src, ''-o'', dst]
   \<and> buildMdToDocxArgs src dst (Some []) = [src, ''-o'', dst]
   \<and> (r \<noteq> [] \<longrightarrow> buildMdToDocxArgs src dst (Some r) = [src, ''-o'', dst, ''--reference-doc'', r])
   \<and> (length (buildMdToDocxArgs src dst ref) = 5 \<longleftrightarrow> ref \<noteq> None \<and> ref \<noteq> Some [])
   \<and> (length (buildMdToDocxArgs src dst ref) = 3 \<longleftrightarrow> ref = None \<or> ref = Some [])
   \<and> buildDocxToMdArgs src dst = [src, ''-o'', dst]"
  by (cases ref)
     (simp_all add: buildMdToDocxArgs_def buildDocxToMdArgs_def truthy_def the_string_def Let_def)

theorem build_args_exact_witness:
  "''ref.docx'' \<noteq> []
   \<and> buildMdToDocxArgs ''a.md'' ''a.docx'' (Some ''ref.docx'')
       = [''a.md'', ''-o'', ''a.docx'', ''--reference-doc'', ''ref.docx'']
   \<and> buildMdToDocxArgs ''a.md'' ''a.docx'' None = [''a.md'', ''-o'', ''a.docx'']
   \<and> buildDocxToMdArgs ''a.docx'' ''a.md'' = [''a.docx'', ''-o'', ''a.md'']"
  using build_args_exact [of "''a.md''" "''a.docx''" "''ref.docx''" None]
        build_args_exact [of "''a.docx''" "''a.md''" "''ref.docx''" None]
  by simp

text \<open>
  The claim as stated asks for the flag whenever the style reference is not \<open>null\<close>.  The empty
  string is not \<open>null\<close>, and the flag is not emitted for it.
\<close>

theorem build_args_nonnull_counterexample:
  "Some [] \<noteq> (None :: string option)
   \<and> buildMdToDocxArgs ''a.md'' ''a.docx'' (Some [])
       \<noteq> [''a.md'', ''-o'', ''a.docx'', ''--reference-doc'', []]
   \<and> ''--reference-doc'' \<notin> set (buildMdToDocxArgs ''a.md'' ''a.docx'' (Some []))"
  by (simp add: buildMdToDocxArgs_def truthy_def)


lemma string_of_int_inj: "string_of_int i = string_of_int j \<Longrightarrow> i = j"
proof -
  assume eq: "string_of_int i = string_of_int j"
  have "parse_number (string_of_int i @ []) = Some (JNum i, [])"
       "parse_number (string_of_int j @ []) = Some (JNum j, [])"
    by (rule parse_number_string_of_int, simp add: tail_ok_def)+
  with eq show "i = j" by simp
qed

lemma runPandoc_status:
  "status (runPandoc spawnSync args) = (case status (spawnSync ''pandoc'' args) of None \<Rightarrow> 1 | Some s \<Rightarrow> s)"
  by (simp add: runPandoc_def Let_def)

lemma label_in_message:
  "sublist (''md '' @ arrow @ '' docx'') (''pandoc failed (md '' @ arrow @ '' docx) with status '' @ t)"
  "sublist (''docx '' @ arrow @ '' md'') (''pandoc failed (docx '' @ arrow @ '' md) with status '' @ t)"
  "sublist s (''pandoc failed (md '' @ arrow @ '' docx) with status '' @ s)"
  "sublist s (''pandoc failed (docx '' @ arrow @ '' md) with status '' @ s)"
proof -
  show "sublist (''md '' @ arrow @ '' docx'') (''pandoc failed (md '' @ arrow @ '' docx) with status '' @ t)"
    using sublist_appendI [of "''md '' @ arrow @ '' docx''" "''pandoc failed (''" "'') with status '' @ t"]
    by simp
  show "sublist (''docx '' @ arrow @ '' md'') (''pandoc failed (docx '' @ arrow @ '' md) with status '' @ t)"
    using sublist_appendI [of "''docx '' @ arrow @ '' md''" "''pandoc failed (''" "'') with status '' @ t"]
    by simp
  show "sublist s (''pandoc failed (md '' @ arrow @ '' docx) with status '' @ s)"
    using sublist_appendI [of s "''pandoc failed (md '' @ arrow @ '' docx) with status ''" "[]"]
    by simp
  show "sublist s (''pandoc failed (docx '' @ arrow @ '' md) with status '' @ s)"
    using sublist_appendI [of s "''pandoc failed (docx '' @ arrow @ '' md) with status ''" "[]"]
    by simp
qed

text \<open>
  Claim C8.  When the tool exits with a code other than 0, \<open>mdToDocx\<close> throws an error whose
  message contains the label \<open>md \<rightarrow> docx\<close> and the decimal form of that code, and \<open>docxToMd\<close>
  one whose message contains \<open>docx \<rightarrow> md\<close> and the code; different codes have different
  decimal forms.  When the code is 0 both return normally.  When the process reports no code,
  \<open>runPandoc\<close> gives the status 1, and both conversions fail with it.
\<close>

theorem conversion_exit_codes:
  "(status (spawnSync ''pandoc'' (buildMdToDocxArgs md out ref)) = Some c \<and> c \<noteq> 0 \<longrightarrow>
      mdToDocx spawnSync md out ref
        = Inl (Error (''pandoc failed (md '' @ arrow @ '' docx) with status '' @ string_of_int c))
      \<and> sublist (''md '' @ arrow @ '' docx'')
           (''pandoc failed (md '' @ arrow @ '' docx) with status '' @ string_of_int c)
      \<and> sublist (string_of_int c)
           (''pandoc failed (md '' @ arrow @ '' docx) with status '' @ string_of_int c))
   \<and> (status (spawnSync ''pandoc'' (buildDocxToMdArgs docx outMd)) = Some c \<and> c \<noteq> 0 \<longrightarrow>
      docxToMd spawnSync docx outMd
        = Inl (Error (''pandoc failed (docx '' @ arrow @ '' md) with status '' @ string_of_int c))
      \<and> sublist (''docx '' @ arrow @ '' md'')
           (''pandoc failed (docx '' @ arrow @ '' md) with status '' @ string_of_int c)
      \<and> sublist (string_of_int c)
           (''pandoc failed (docx '' @ arrow @ '' md) with status '' @ string_of_int c))
   \<and> (string_of_int c = string_of_int c' \<longrightarrow> c = c')
   \<and> (status (spawnSync ''pandoc'' (buildMdToDocxArgs md out ref)) = Some 0 \<longrightarrow>
      mdToDocx spawnSync md out ref = Inr ())
   \<and> (status (spawnSync ''pandoc'' (buildDocxToMdArgs docx outMd)) = Some 0 \<longrightarrow>
      docxToMd spawnSync docx outMd = Inr ())
   \<and> (status (spawnSync ''pandoc'' args) = None \<longrightarrow> status (runPandoc spawnSync args) = 1)
   \<and> (status (spawnSync ''pandoc'' (buildMdToDocxArgs md out ref)) = None \<longrightarrow>
      mdToDocx spawnSync md out ref
        = Inl (Error (''pandoc failed (md '' @ arrow @ '' docx) with status '' @ string_of_int 1)))
   \<and> (status (spawnSync ''pandoc'' (buildDocxToMdArgs docx outMd)) = None \<longrightarrow>
      docxToMd spawnSync docx outMd
        = Inl (Error (''pandoc failed (docx '' @ arrow @ '' md) with status '' @ string_of_int 1)))"
proof -
  let ?fwd = "status (spawnSync ''pandoc'' (buildMdToDocxArgs md out ref))"
  let ?rev = "status (spawnSync ''pandoc'' (buildDocxToMdArgs docx outMd))"
  have f1: "?fwd = Some c \<and> c \<noteq> 0 \<longrightarrow>
      mdToDocx spawnSync md out ref
        = Inl (Error (''pandoc failed (md '' @ arrow @ '' docx) with status '' @ string_of_int c))"
    by (simp add: mdToDocx_def Let_def runPandoc_status)
  have r1: "?rev = Some c \<and> c \<noteq> 0 \<longrightarrow>
      docxToMd spawnSync docx outMd
        = Inl (Error (''pandoc failed (docx '' @ arrow @ '' md) with status '' @ string_of_int c))"
    by (simp add: docxToMd_def Let_def runPandoc_status)
  have inj: "string_of_int c = string_of_int c' \<longrightarrow> c = c'"
    using string_of_int_inj by blast
  have f0: "?fwd = Some 0 \<longrightarrow> mdToDocx spawnSync md out ref = Inr ()"
    by (simp add: mdToDocx_def Let_def runPandoc_status)
  have r0: "?rev = Some 0 \<longrightarrow> docxToMd spawnSync docx outMd = Inr ()"
    by (simp add: docxToMd_def Let_def runPandoc_status)
  have n: "status (spawnSync ''pandoc'' args) = None \<longrightarrow> status (runPandoc spawnSync args) = 1"
    by (simp add: runPandoc_status)
  have fn: "?fwd = None \<longrightarrow>
      mdToDocx spawnSync md out ref
        = Inl (Error (''pandoc failed (md '' @ arrow @ '' docx) with status '' @ string_of_int 1))"
    by (simp add: mdToDocx_def Let_def runPandoc_status)
  have rn: "?rev = None \<longrightarrow>
      docxToMd spawnSync docx outMd
        = Inl (Error (''pandoc failed (docx '' @ arrow @ '' md) with status '' @ string_of_int 1))"
    by (simp add: docxToMd_def Let_def runPandoc_status)
  show ?thesis
    by (intro conjI impI f1 [rule_format] r1 [rule_format] inj [rule_format] f0 [rule_format]
          r0 [rule_format] n [rule_format] fn [rule_format] rn [rule_format] label_in_message)
       simp_all
qed

lemma string_of_int_small: "string_of_int 1 = ''1''" "string_of_int 2 = ''2''"
  by code_simp+

theorem conversion_exit_codes_witness:
  "mdToDocx (\<lambda>cmd args. \<lparr> status = Some 2, stdout = None, stderr = None \<rparr>) ''test.md'' ''test.docx'' None
     = Inl (Error (''pandoc failed (md '' @ arrow @ '' docx) with status 2''))
   \<and> docxToMd (\<lambda>cmd args. \<lparr> status = Some 2, stdout = None, stderr = None \<rparr>) ''test.docx'' ''test.md''
     = Inl (Error (''pandoc failed (docx '' @ arrow @ '' md) with status 2''))
   \<and> mdToDocx (\<lambda>cmd args. \<lparr> status = Some 0, stdout = None, stderr = None \<rparr>) ''a.md'' ''a.docx'' None
     = Inr ()
   \<and> status (runPandoc (\<lambda>cmd args. \<lparr> status = None, stdout = None, stderr = None \<rparr>)
               [''test.md'', ''-o'', ''test.docx'']) = 1
   \<and> mdToDocx (\<lambda>cmd args. \<lparr> status = None, stdout = None, stderr = None \<rparr>) ''a.md'' ''a.docx'' None
     = Inl (Error (''pandoc failed (md '' @ arrow @ '' docx) with status 1''))"
  using conversion_exit_codes [of "\<lambda>cmd args. \<lparr> status = Some 2, stdout = None, stderr = None \<rparr>"
          "''test.md''" "''test.docx''" None 2 "''test.docx''" "''test.md''" 2 "[]"]
        conversion_exit_codes [of "\<lambda>cmd args. \<lparr> status = Some 0, stdout = None, stderr = None \<rparr>"
          "''a.md''" "''a.docx''" None 0 "''a.docx''" "''a.md''" 0 "[]"]
        conversion_exit_codes [of "\<lambda>cmd args. \<lparr> status = None, stdout = None, stderr = None \<rparr>"
          "''a.md''" "''a.docx''" None 0 "''a.docx''" "''a.md''" 0 "[''test.md'', ''-o'', ''test.docx'']"]
  by (simp add: string_of_int_small)


section \<open>The formatting requests\<close>





section \<open>Time stamps and exit codes of \<open>push\<close> and \<open>pull\<close>\<close>


lemma conversion_keeps_manifest:
  "manifest_file (snd (run_pandoc_command command out w)) = manifest_file w"
  "manifest_writes (trace (snd (run_pandoc_command command out w))) = manifest_writes (trace w)"
  "manifest_file (snd (convertMarkdownToDocx md ref w)) = manifest_file w"
  "manifest_writes (trace (snd (convertMarkdownToDocx md ref w))) = manifest_writes (trace w)"
  "manifest_file (snd (convertDocxToMarkdown docx out w)) = manifest_file w"
  "manifest_writes (trace (snd (convertDocxToMarkdown docx out w))) = manifest_writes (trace w)"
  by (auto simp: run_pandoc_command_def convertMarkdownToDocx_def convertDocxToMarkdown_def
        Let_def is_manifest_write_def split: exec_result.splits option.splits)

text \<open>A push of a file that is already linked never writes the manifest.\<close>

lemma push_linked_keeps_manifest:
  assumes "\<not> dryRun options" "manifest_file w = Holds m" "linked (files m filePath)"
  shows "manifest_file (snd (pushCommand filePath options w)) = Holds m"
    and "manifest_writes (trace (snd (pushCommand filePath options w))) = manifest_writes (trace w)"
proof -
  let ?w1 = "emit (ConsoleLog (''Pushing '' @ filePath @ '' to Google Docs...'')) w"
  let ?w2 = "emit (ConsoleLog (check_mark @ '' Authenticated with Google'')) (authenticate ?w1)"
  let ?c = "convertMarkdownToDocx filePath (refdoc options) ?w2"
  have c: "manifest_file (snd ?c) = Holds m"
          "manifest_writes (trace (snd ?c)) = manifest_writes (trace w)"
    using assms(2)
    by (simp_all add: conversion_keeps_manifest authenticate_def is_manifest_write_def)
  have "manifest_file (snd (pushCommand filePath options w)) = Holds m
        \<and> manifest_writes (trace (snd (pushCommand filePath options w))) = manifest_writes (trace w)"
  proof (cases ?c)
    case (Pair r w3)
    with c have w3: "manifest_file w3 = Holds m"
      "manifest_writes (trace w3) = manifest_writes (trace w)" by simp_all
    show ?thesis
    proof (cases r)
      case (Inl error)
      with Pair w3 assms(1) show ?thesis
        by (simp add: pushCommand_def push_try_def Let_def is_manifest_write_def)
    next
      case (Inr docxPath)
      with Pair w3 assms(1,3) show ?thesis
        by (simp add: pushCommand_def push_try_def Let_def loadManifest_def formatDocument_def
              is_manifest_write_def)
    qed
  qed
  then show "manifest_file (snd (pushCommand filePath options w)) = Holds m"
    and "manifest_writes (trace (snd (pushCommand filePath options w))) = manifest_writes (trace w)"
    by simp_all
qed


text \<open>The sibling paths set the time stamp: a pull that goes through, and a push that
  creates the link.\<close>

lemma pull_sets_timestamp:
  assumes "\<not> dryRun options" "manifest_file w = Holds m"
    and "files m filePath = Some info" "truthy (gdocId info)"
    and "pandoc_installed w" "mkdir_fault w (path_dirname w filePath) = None"
    and "\<forall>c. \<exists>out err. exec w c = Exits out err" "write_fault w = None"
  shows "manifest_file (snd (pullCommand filePath options w))
           = Holds (m\<lparr> files := (files m)(filePath \<mapsto> info\<lparr> lastSync := Some (clock w) \<rparr>) \<rparr>)"
proof -
  let ?docx = "path_join w ''dist'' (path_basename w filePath ''.md'' @ ''.docx'')"
  let ?cmd = "''pandoc '' @ [dquote] @ ?docx @ [dquote] @ '' -o '' @ [dquote] @ filePath @ [dquote]
                @ '' --wrap=none --extract-media=.''"
  from assms(7) obtain out err where "exec w ?cmd = Exits out err" by blast
  with assms(1-6,8) show ?thesis
    by (simp add: pullCommand_def pull_try_def loadManifest_def saveManifest_def
          convertDocxToMarkdown_def run_pandoc_command_def authenticate_def linked_def Let_def)
qed

lemma push_new_link_sets_timestamp:
  assumes "\<not> dryRun options" "manifest_file w = Holds m" "\<not> linked (files m filePath)"
    and "pandoc_installed w" "mkdir_fault w ''dist'' = None"
    and "\<forall>c. \<exists>out err. exec w c = Exits out err" "write_fault w = None"
  shows "manifest_file (snd (pushCommand filePath options w))
           = Holds (m\<lparr> files := (files m)(filePath \<mapsto>
                      \<lparr> gdocId = Some (''stub_'' @ random_suffix w), lastSync = Some (clock w) \<rparr>) \<rparr>)"
proof -
  let ?out = "path_join w ''dist'' (path_basename w filePath ''.md'' @ ''.docx'')"
  let ?cmd0 = "''pandoc '' @ [dquote] @ filePath @ [dquote] @ '' -o '' @ [dquote] @ ?out @ [dquote]"
  let ?cmd = "if truthy (refdoc options)
              then ?cmd0 @ '' --reference-doc='' @ [dquote] @ the_string (refdoc options) @ [dquote]
              else ?cmd0"
  from assms(6) obtain out err where "exec w ?cmd = Exits out err" by blast
  with assms(1-5,7) show ?thesis
    by (simp add: pushCommand_def push_try_def loadManifest_def saveManifest_def createDoc_def
          convertMarkdownToDocx_def run_pandoc_command_def authenticate_def formatDocument_def
          Let_def split: if_splits)
qed

text \<open>
  Claim C1 at a concrete run.  \<open>content/ch1.md\<close> is linked to \<open>abc123\<close> and was last
  synchronised on 2025-01-01; every step of the environment succeeds and the clock shows
  2026-03-04.  The push goes through and prints its success message, the manifest is never
  written, and the entry keeps the time stamp of 2025-01-01.
\<close>

theorem push_of_linked_file_keeps_timestamp:
  "fst (pushCommand ''content/ch1.md'' real_run (calm_world (Holds linked_manifest))) = Resolved
   \<and> ConsoleLog (newline # check_mark @ '' Successfully pushed content/ch1.md'')
       \<in> set (trace (snd (pushCommand ''content/ch1.md'' real_run
                             (calm_world (Holds linked_manifest)))))
   \<and> manifest_writes (trace (snd (pushCommand ''content/ch1.md'' real_run
                                     (calm_world (Holds linked_manifest))))) = []
   \<and> manifest_file (snd (pushCommand ''content/ch1.md'' real_run
                            (calm_world (Holds linked_manifest)))) = Holds linked_manifest
   \<and> files linked_manifest ''content/ch1.md''
       = Some \<lparr> gdocId = Some ''abc123'', lastSync = Some ''2025-01-01T00:00:00.000Z'' \<rparr>
   \<and> clock (snd (pushCommand ''content/ch1.md'' real_run (calm_world (Holds linked_manifest))))
       = ''2026-03-04T05:06:07.000Z''"
  by (simp add: pushCommand_def push_try_def loadManifest_def convertMarkdownToDocx_def
        run_pandoc_command_def authenticate_def formatDocument_def linked_def linked_id_def
        truthy_def the_string_def calm_world_def real_run_def linked_manifest_def Let_def
        is_manifest_write_def)











end
